theory Spec2Isabelle
  imports Complex_Main "HOL-Library.Log_Nat"
begin

section \<open>Numbers, vectors and the physics library\<close>

text \<open>
  JavaScript numbers are modelled as reals, so every arithmetic step is exact. The one
  non-real value the source tests for, \<open>NaN\<close> (\<open>isNaN(deltaTime)\<close>), is a constructor of
  its own in the type of the \<open>deltaTime\<close> arguments. The one property below that depends on
  how the program rounds, the return of the steering angle to exactly 0, is stated on the
  steering arithmetic in IEEE-754 binary64, which has a section of its own.
\<close>

datatype number = NaN | Num real

text \<open>\<open>CANNON.Vec3\<close> and \<open>CANNON.Quaternion\<close> carry their components.\<close>

datatype vec3 = Vec3 (vec_x: real) (vec_y: real) (vec_z: real)

datatype quat = Quaternion (quat_x: real) (quat_y: real) (quat_z: real) (quat_w: real)

text \<open>
  The component-wise operations of \<open>CANNON.Vec3\<close> that the source calls:
  \<open>a.distanceTo(b)\<close> is the Euclidean distance, \<open>v.length()\<close> the Euclidean norm and
  \<open>v.scale(s)\<close> the product with a scalar.
\<close>

definition distanceTo :: "vec3 \<Rightarrow> vec3 \<Rightarrow> real" where
  "distanceTo a b =
     sqrt ((vec_x b - vec_x a) * (vec_x b - vec_x a)
         + (vec_y b - vec_y a) * (vec_y b - vec_y a)
         + (vec_z b - vec_z a) * (vec_z b - vec_z a))"

definition length_vec3 :: "vec3 \<Rightarrow> real" where
  "length_vec3 v = sqrt (vec_x v * vec_x v + vec_y v * vec_y v + vec_z v * vec_z v)"

definition scale :: "vec3 \<Rightarrow> real \<Rightarrow> vec3" where
  "scale v s = Vec3 (s * vec_x v) (s * vec_y v) (s * vec_z v)"

text \<open>
  The physics engine is a third-party library and not part of the repository. What the
  rig calls of its quaternion algebra and of its integrator is a parameter of the model:
  \<open>setFromAxisAngle\<close>, \<open>q.mult(p)\<close>, \<open>q.vmult(v)\<close>, the damping coefficients that a
  new \<open>CANNON.Body\<close> gets when the options give none, the stiffness and damping that a new
  \<open>CANNON.Spring\<close> gets in place of an option that is 0, and \<open>world.step(dt)\<close>. Every
  property below holds for every such library.
\<close>

record CANNON =
  setFromAxisAngle :: "vec3 \<Rightarrow> real \<Rightarrow> quat"
  mult :: "quat \<Rightarrow> quat \<Rightarrow> quat"
  vmult :: "quat \<Rightarrow> vec3 \<Rightarrow> vec3"
  defaultLinearDamping :: real
  defaultAngularDamping :: real
  defaultStiffness :: real
  defaultDamping :: real

text \<open>
  The library as published (cannon.js 0.6.2): rotation by the unit quaternion of an axis
  and an angle, the Hamilton product, the rotation of a vector, and its defaults (damping
  0.01 of a body, stiffness 100 and damping 1 of a spring). It is used to run the model on
  concrete inputs.
\<close>

definition cannon :: CANNON where
  "cannon =
     \<lparr> setFromAxisAngle = (\<lambda>axis angle.
          Quaternion (vec_x axis * sin (angle * 0.5)) (vec_y axis * sin (angle * 0.5))
                     (vec_z axis * sin (angle * 0.5)) (cos (angle * 0.5))),
       mult = (\<lambda>a b.
          Quaternion
            (quat_x a * quat_w b + quat_w a * quat_x b + quat_y a * quat_z b - quat_z a * quat_y b)
            (quat_y a * quat_w b + quat_w a * quat_y b + quat_z a * quat_x b - quat_x a * quat_z b)
            (quat_z a * quat_w b + quat_w a * quat_z b + quat_x a * quat_y b - quat_y a * quat_x b)
            (quat_w a * quat_w b - quat_x a * quat_x b - quat_y a * quat_y b - quat_z a * quat_z b)),
       vmult = (\<lambda>q v.
          let ix = quat_w q * vec_x v + quat_y q * vec_z v - quat_z q * vec_y v;
              iy = quat_w q * vec_y v + quat_z q * vec_x v - quat_x q * vec_z v;
              iz = quat_w q * vec_z v + quat_x q * vec_y v - quat_y q * vec_x v;
              iw = - quat_x q * vec_x v - quat_y q * vec_y v - quat_z q * vec_z v
          in Vec3 (ix * quat_w q + iw * - quat_x q + iy * - quat_z q - iz * - quat_y q)
                  (iy * quat_w q + iw * - quat_y q + iz * - quat_x q - ix * - quat_z q)
                  (iz * quat_w q + iw * - quat_z q + ix * - quat_y q - iy * - quat_x q)),
       defaultLinearDamping = 0.01,
       defaultAngularDamping = 0.01,
       defaultStiffness = 100,
       defaultDamping = 1 \<rparr>"

section \<open>Rigid bodies and the physics world\<close>

text \<open>
  A \<open>CANNON.Body\<close> with the fields the rig reads and writes. \<open>body.applyForce(f, p)\<close> hands
  a force and its world point of application to the engine; the model keeps these calls,
  in order, in \<open>forces\<close>.
\<close>

record body =
  mass :: real
  position :: vec3
  quaternion :: quat
  velocity :: vec3
  angularVelocity :: vec3
  linearDamping :: real
  angularDamping :: real
  forces :: "(vec3 \<times> vec3) list"

definition applyForce :: "vec3 \<Rightarrow> vec3 \<Rightarrow> body \<Rightarrow> body" where
  "applyForce f worldPoint b = b\<lparr>forces := forces b @ [(f, worldPoint)]\<rparr>"

text \<open>
  A \<open>CANNON.Spring\<close> between two particles of a soft body. The particles are distinct
  objects; a spring names its two ends by their index in the \<open>bodies\<close> array that
  \<open>createSoftBody\<close> returns.
\<close>

record spring =
  bodyA :: nat
  bodyB :: nat
  restLength :: real
  stiffness :: real
  damping :: real

record softBody =
  bodies :: "body list"
  constraints :: "spring list"

text \<open>
  \<open>PhysicsWorld\<close> (the first class of \<open>physics.js\<close>, the one that has \<open>createWheelBody\<close>):
  \<open>worldBodies\<close> is \<open>this.bodies\<close>, \<open>postStep\<close> the springs whose \<open>applyForce\<close> was
  registered as a \<open>postStep\<close> listener, and \<open>steps\<close> the arguments of the calls of
  \<open>this.world.step\<close> so far. Meshes and the render scene are not modelled.
\<close>

record physicsWorld =
  worldBodies :: "body list"
  postStep :: "spring list"
  steps :: "real list"

definition addBody :: "body \<Rightarrow> physicsWorld \<Rightarrow> physicsWorld" where
  "addBody b pw = pw\<lparr>worldBodies := worldBodies pw @ [b]\<rparr>"

text \<open>
  \<open>PhysicsWorld.update(deltaTime)\<close>, lines 44-77. \<open>step\<close> is the library's integrator on
  the bodies. An exception thrown by it is caught and logged; all it skips is the copy to
  the meshes and the warnings, which the model does not carry.
\<close>

definition PhysicsWorld_update ::
  "(real \<Rightarrow> body list \<Rightarrow> body list) \<Rightarrow> number \<Rightarrow> physicsWorld \<Rightarrow> physicsWorld" where
  "PhysicsWorld_update step deltaTime pw =
     (let dt = (case deltaTime of
                  NaN \<Rightarrow> 1 / 60
                | Num d \<Rightarrow> if d \<le> 0 then 1 / 60 else d)
      in pw\<lparr>steps := steps pw @ [dt], worldBodies := step dt (worldBodies pw)\<rparr>)"

text \<open>\<open>PhysicsWorld.createWheelBody\<close>, lines 157-176, with the default mass 30.\<close>

definition createWheelBody :: "CANNON \<Rightarrow> vec3 \<Rightarrow> physicsWorld \<Rightarrow> body \<times> physicsWorld" where
  "createWheelBody L pos pw =
     (let quat = setFromAxisAngle L (Vec3 0 0 1) (pi / 2);
          wheelBody = \<lparr> mass = 30, position = Vec3 (vec_x pos) (vec_y pos) (vec_z pos),
                        quaternion = quat, velocity = Vec3 0 0 0, angularVelocity = Vec3 0 0 0,
                        linearDamping = defaultLinearDamping L, angularDamping = 0.2,
                        forces = [] \<rparr>
      in (wheelBody, addBody wheelBody pw))"

text \<open>
  \<open>PhysicsWorld.createSoftBody(positions, mass, stiffness, damping)\<close>, lines 193-237: one
  particle per position, then the two nested loops \<open>for i\<close>, \<open>for j = i + 1\<close> that create
  a spring for the pair and register it.
\<close>

definition newParticle :: "CANNON \<Rightarrow> real \<Rightarrow> vec3 \<Rightarrow> body" where
  "newParticle L m pos =
     \<lparr> mass = m, position = Vec3 (vec_x pos) (vec_y pos) (vec_z pos),
       quaternion = Quaternion 0 0 0 1, velocity = Vec3 0 0 0, angularVelocity = Vec3 0 0 0,
       linearDamping = defaultLinearDamping L, angularDamping = defaultAngularDamping L,
       forces = [] \<rparr>"

text \<open>
  \<open>new CANNON.Spring(bodyA, bodyB, {restLength, stiffness, damping})\<close> for the pair
  \<open>i\<close>, \<open>j\<close>. The library keeps a rest length that is a number, and takes
  \<open>options.stiffness || 100\<close> and \<open>options.damping || 1\<close>: a coefficient given as 0 is
  replaced by the library's default.
\<close>

definition newSpring :: "CANNON \<Rightarrow> body list \<Rightarrow> real \<Rightarrow> real \<Rightarrow> nat \<Rightarrow> nat \<Rightarrow> spring" where
  "newSpring L bs k d i j =
     \<lparr> bodyA = i, bodyB = j,
       restLength = distanceTo (position (bs ! i)) (position (bs ! j)),
       stiffness = (if k = 0 then defaultStiffness L else k),
       damping = (if d = 0 then defaultDamping L else d) \<rparr>"

definition createSprings :: "CANNON \<Rightarrow> body list \<Rightarrow> real \<Rightarrow> real \<Rightarrow> spring list" where
  "createSprings L bs k d =
     concat (map (\<lambda>i. map (\<lambda>j. newSpring L bs k d i j) [i + 1 ..< length bs])
                 [0 ..< length bs])"

definition createSoftBody ::
  "CANNON \<Rightarrow> vec3 list \<Rightarrow> real \<Rightarrow> real \<Rightarrow> real \<Rightarrow> physicsWorld \<Rightarrow> softBody \<times> physicsWorld" where
  "createSoftBody L positions m k d pw =
     (let bs = map (newParticle L (m / real (length positions))) positions;
          pw1 = fold addBody bs pw;
          cs = createSprings L bs k d
      in (\<lparr> bodies = bs, constraints = cs \<rparr>, pw1\<lparr>postStep := postStep pw1 @ cs\<rparr>))"

section \<open>The steering angle in binary64\<close>

text \<open>
  Whether the steering angle comes back to exactly 0 depends on the rounding of the
  arithmetic, so for that property the assignments to \<open>this.steering\<close> are also given as
  the program computes them, in IEEE-754 binary64. A finite number is \<open>Double m e\<close>, of
  value \<open>m * 2 ^ e\<close>; the two zeros are not told apart, which no operation used here can
  observe.
\<close>

datatype double = Double int int | Infinity | MinusInfinity | NaN64

text \<open>
  Rounding of the exact value \<open>m * 2 ^ e\<close> to the nearest binary64 number, ties to even:
  53 bits, no exponent below \<open>-1074\<close>, and infinity from \<open>2 ^ 1024\<close> on. \<open>roundShift a k\<close>
  is \<open>a / 2 ^ k\<close> rounded to the nearest integer, ties to even; \<open>quantum a e\<close> is the
  exponent of the last bit kept of \<open>a * 2 ^ e\<close>.
\<close>

definition roundShift :: "int \<Rightarrow> nat \<Rightarrow> int" where
  "roundShift a k =
     (let d = a div 2 ^ k; r = a mod 2 ^ k
      in if 2 * r > 2 ^ k \<or> (2 * r = 2 ^ k \<and> odd d) then d + 1 else d)"

definition quantum :: "int \<Rightarrow> int \<Rightarrow> int" where
  "quantum a e = max (e + bitlen a - 53) (- 1074)"

definition round64 :: "int \<Rightarrow> int \<Rightarrow> double" where
  "round64 m e =
     (if m = 0 then Double 0 0
      else let a = \<bar>m\<bar>;
               q = quantum a e;
               a' = (if q \<le> e then a else roundShift a (nat (q - e)));
               q' = (if q \<le> e then e else q)
           in if bitlen a' + q' > 1024 then (if 0 < m then Infinity else MinusInfinity)
              else Double (if 0 < m then a' else - a') q')"

text \<open>
  JavaScript's unary and binary \<open>-\<close>, \<open>+\<close>, \<open>*\<close>, \<open><\<close> and \<open><=\<close>, \<open>Math.max\<close>,
  \<open>Math.min\<close> and \<open>Math.abs\<close> on these numbers.
\<close>

fun neg64 :: "double \<Rightarrow> double" where
  "neg64 (Double m e) = Double (- m) e"
| "neg64 Infinity = MinusInfinity"
| "neg64 MinusInfinity = Infinity"
| "neg64 NaN64 = NaN64"





fun lt64 :: "double \<Rightarrow> double \<Rightarrow> bool" where
  "lt64 (Double m1 e1) (Double m2 e2) =
     (let e = min e1 e2 in m1 * 2 ^ nat (e1 - e) < m2 * 2 ^ nat (e2 - e))"
| "lt64 NaN64 b = False"
| "lt64 a NaN64 = False"
| "lt64 Infinity b = False"
| "lt64 a MinusInfinity = False"
| "lt64 MinusInfinity b = True"
| "lt64 a Infinity = True"

definition le64 :: "double \<Rightarrow> double \<Rightarrow> bool" where
  "le64 a b = (a \<noteq> NaN64 \<and> b \<noteq> NaN64 \<and> \<not> lt64 b a)"





section \<open>The car\<close>

text \<open>
  The vehicle rig is the class \<open>Car\<close> of \<open>physics.js\<close> (lines 425-1048): hinge and
  point-to-point suspension, cylinder wheels. The properties set once in the constructor and
  never assigned again are constants.
\<close>

definition maxSteeringAngle :: real where "maxSteeringAngle = 0.5"
definition maxForce :: real where "maxForce = 500"
definition width :: real where "width = 1.8"
definition length_car :: real where "length_car = 4.5"
definition height :: real where "height = 1.4"
definition wheelRadius :: real where "wheelRadius = 0.4"

record control_flags =
  forward :: bool
  backward :: bool
  left :: bool
  right :: bool
  brake :: bool

text \<open>
  \<open>carPosition\<close> is \<open>this.position\<close>, the spawn position given to the constructor. The
  wheels and the bumper particles are objects of their own, so the car holds them by value.
\<close>

record car =
  carPosition :: vec3
  controls :: control_flags
  speed :: real
  steering :: real
  chassisBody :: body
  wheelBodies :: "body list"
  frontBumper :: softBody

text \<open>\<open>this.wheelPositions\<close>, assigned once in \<open>createWheels\<close> (lines 650-655).\<close>

definition wheelPositions :: "vec3 list" where
  "wheelPositions =
     [ Vec3 (length_car * 0.3) (- height / 2 + wheelRadius) (- width / 2),
       Vec3 (length_car * 0.3) (- height / 2 + wheelRadius) (width / 2),
       Vec3 (- length_car * 0.3) (- height / 2 + wheelRadius) (- width / 2),
       Vec3 (- length_car * 0.3) (- height / 2 + wheelRadius) (width / 2) ]"

text \<open>
  The rest offsets of the bumper particles, \<open>frontBumperPositions\<close> of
  \<open>createSoftBodyComponents\<close> (lines 753-763), with \<open>segments = 8\<close>.
\<close>

definition frontBumperPosition :: "nat \<Rightarrow> nat \<Rightarrow> vec3" where
  "frontBumperPosition segments i =
     (let frontBumperWidth = width * 0.9
      in Vec3 (length_car / 2 + 0.1) (- height / 3)
              (- frontBumperWidth / 2 + (frontBumperWidth / (real segments - 1)) * real i))"

definition frontBumperPositions :: "vec3 list" where
  "frontBumperPositions = map (frontBumperPosition 8) [0 ..< 8]"

text \<open>
  \<open>resetWheelPositions\<close>, lines 1027-1048. The loops over the wheels and over the bumper
  particles are maps over the indices. A car has four wheels and eight bumper particles from
  its construction on (\<open>lengths_Car_new\<close>, \<open>lengths_run\<close> below), so every indexed read and
  write of the model is in range, as it is in the source, and the statements about wheels and
  particles assume these two numbers.
\<close>

definition resetWheelPositions :: "car \<Rightarrow> car" where
  "resetWheelPositions c =
     (let chassisPos = position (chassisBody c)
      in c\<lparr>wheelBodies :=
             map (\<lambda>i. let wheelOffset = wheelPositions ! i;
                           worldPos = Vec3 (vec_x chassisPos + vec_x wheelOffset)
                                           (vec_y chassisPos + vec_y wheelOffset)
                                           (vec_z chassisPos + vec_z wheelOffset)
                       in (wheelBodies c ! i)\<lparr>position := worldPos\<rparr>)
                 [0 ..< length (wheelBodies c)]\<rparr>)"

text \<open>
  \<open>reset\<close>, lines 978-1024. The bumper exists from the constructor on, so the test
  \<open>this.frontBumper && this.frontBumper.bodies\<close> succeeds.
\<close>

definition noControls :: control_flags where
  "noControls =
     \<lparr> forward = False, backward = False, left = False, right = False, brake = False \<rparr>"

definition reset :: "CANNON \<Rightarrow> car \<Rightarrow> car" where
  "reset L c =
     (let p = carPosition c;
          chassis = (chassisBody c)
            \<lparr> position := Vec3 (vec_x p) (vec_y p + height) (vec_z p),
              quaternion := Quaternion 0 0 0 1,
              velocity := Vec3 0 0 0,
              angularVelocity := Vec3 0 0 0 \<rparr>;
          c1 = resetWheelPositions (c\<lparr>chassisBody := chassis\<rparr>);
          defaultQuat = setFromAxisAngle L (Vec3 0 0 1) (pi / 2);
          c2 = c1\<lparr>wheelBodies :=
                   map (\<lambda>wheelBody. wheelBody
                          \<lparr> quaternion := defaultQuat,
                            velocity := Vec3 0 0 0,
                            angularVelocity := Vec3 0 0 0,
                            angularDamping := 0.1,
                            linearDamping := 0.05 \<rparr>)
                       (wheelBodies c1)\<rparr>;
          bs = bodies (frontBumper c2);
          n = length bs;
          bs' = map (\<lambda>i. (bs ! i)
                       \<lparr> position :=
                           Vec3 (vec_x (position chassis) + length_car / 2 + 0.1)
                                (vec_y (position chassis) - height / 3)
                                (vec_z (position chassis) - (width * 0.9 / 2)
                                   + ((width * 0.9) / (real n - 1)) * real i),
                         velocity := Vec3 0 0 0,
                         angularVelocity := Vec3 0 0 0 \<rparr>)
                    [0 ..< n]
      in c2\<lparr> frontBumper := (frontBumper c2)\<lparr>bodies := bs'\<rparr>,
              controls := noControls,
              speed := 0,
              steering := 0 \<rparr>)"

text \<open>
  \<open>updateSteering\<close>, lines 881-915: the steering angle, then the orientation of the two
  front wheels.
\<close>

definition updateSteering :: "CANNON \<Rightarrow> real \<Rightarrow> car \<Rightarrow> car" where
  "updateSteering L deltaTime c =
     (let steeringSpeed = 2.0;
          steeringReturnSpeed = 3.0;
          s = (if left (controls c) then
                 min (steering c + steeringSpeed * deltaTime) maxSteeringAngle
               else if right (controls c) then
                 max (steering c - steeringSpeed * deltaTime) (- maxSteeringAngle)
               else if steering c > 0 then
                 max (steering c - steeringReturnSpeed * deltaTime) 0
               else if steering c < 0 then
                 min (steering c + steeringReturnSpeed * deltaTime) 0
               else steering c);
          steeringQuat = setFromAxisAngle L (Vec3 0 1 0) s;
          defaultQuat = setFromAxisAngle L (Vec3 0 0 1) (pi / 2);
          steer = (\<lambda>wheelBody. wheelBody\<lparr>quaternion := mult L steeringQuat defaultQuat\<rparr>);
          ws = wheelBodies c;
          ws1 = ws[0 := steer (ws ! 0)];
          ws2 = ws1[1 := steer (ws1 ! 1)]
      in c\<lparr>steering := s, wheelBodies := ws2\<rparr>)"


text \<open>
  \<open>updateDriving\<close>, lines 917-957. \<open>engineForce\<close> is the local variable of that name,
  \<open>driveWheel\<close> the body of the loop over the rear wheels \<open>i = 2, 3\<close>. Over the reals the
  norm of the velocity is never \<open>NaN\<close>, so the speed is that norm.
\<close>

definition engineForce :: "control_flags \<Rightarrow> real" where
  "engineForce ctl =
     (if forward ctl then maxForce
      else if backward ctl then - maxForce * 0.5
      else 0)"

definition driveWheel :: "CANNON \<Rightarrow> control_flags \<Rightarrow> body \<Rightarrow> body" where
  "driveWheel L ctl wheelBody =
     (let forceDir = Vec3 1 0 0;
          worldForceDir = vmult L (quaternion wheelBody) forceDir;
          w1 = (if engineForce ctl \<noteq> 0
                then applyForce (scale worldForceDir (engineForce ctl)) (position wheelBody) wheelBody
                else wheelBody)
      in if brake ctl
         then w1\<lparr>angularDamping := 0.95, linearDamping := 0.9\<rparr>
         else w1\<lparr>angularDamping := 0.1, linearDamping := 0.05\<rparr>)"

definition updateDriving :: "CANNON \<Rightarrow> real \<Rightarrow> car \<Rightarrow> car" where
  "updateDriving L deltaTime c =
     (let ws = wheelBodies c;
          ws1 = ws[2 := driveWheel L (controls c) (ws ! 2)];
          ws2 = ws1[3 := driveWheel L (controls c) (ws1 ! 3)]
      in c\<lparr>wheelBodies := ws2, speed := length_vec3 (velocity (chassisBody c))\<rparr>)"

text \<open>\<open>Car.update\<close>, lines 853-879; the copies to the meshes are not modelled.\<close>

definition Car_update :: "CANNON \<Rightarrow> number \<Rightarrow> car \<Rightarrow> car" where
  "Car_update L deltaTime c =
     (case deltaTime of
        NaN \<Rightarrow> c
      | Num dt \<Rightarrow>
          if dt \<le> 0 then c
          else (let c1 = updateSteering L dt c;
                    c2 = updateDriving L dt c1
                in if vec_y (position (chassisBody c2)) < - 10 then reset L c2 else c2))"

text \<open>
  The keyboard listeners of \<open>setupControls\<close>, lines 807-851. \<open>toLowerCase\<close> is the one of
  ASCII, which is all the \<open>switch\<close> can tell apart.
\<close>

definition toLowerCase :: "string \<Rightarrow> string" where
  "toLowerCase s =
     map (\<lambda>ch. case map_of (zip ''ABCDEFGHIJKLMNOPQRSTUVWXYZ'' ''abcdefghijklmnopqrstuvwxyz'') ch of
                  Some l \<Rightarrow> l
                | None \<Rightarrow> ch) s"

definition keydown :: "CANNON \<Rightarrow> string \<Rightarrow> car \<Rightarrow> car" where
  "keydown L key c =
     (let k = toLowerCase key in
      if k = ''w'' then c\<lparr>controls := (controls c)\<lparr>forward := True\<rparr>\<rparr>
      else if k = ''s'' then c\<lparr>controls := (controls c)\<lparr>backward := True\<rparr>\<rparr>
      else if k = ''a'' then c\<lparr>controls := (controls c)\<lparr>left := True\<rparr>\<rparr>
      else if k = ''d'' then c\<lparr>controls := (controls c)\<lparr>right := True\<rparr>\<rparr>
      else if k = '' '' then c\<lparr>controls := (controls c)\<lparr>brake := True\<rparr>\<rparr>
      else if k = ''r'' then reset L c
      else c)"

definition keyup :: "string \<Rightarrow> car \<Rightarrow> car" where
  "keyup key c =
     (let k = toLowerCase key in
      if k = ''w'' then c\<lparr>controls := (controls c)\<lparr>forward := False\<rparr>\<rparr>
      else if k = ''s'' then c\<lparr>controls := (controls c)\<lparr>backward := False\<rparr>\<rparr>
      else if k = ''a'' then c\<lparr>controls := (controls c)\<lparr>left := False\<rparr>\<rparr>
      else if k = ''d'' then c\<lparr>controls := (controls c)\<lparr>right := False\<rparr>\<rparr>
      else if k = '' '' then c\<lparr>controls := (controls c)\<lparr>brake := False\<rparr>\<rparr>
      else c)"

text \<open>
  The constructor with \<open>init\<close>, lines 426-487: \<open>createChassis\<close> (lines 511-538),
  \<open>createWheels\<close> (lines 666-693), \<open>createSoftBodyComponents\<close> (lines 748-775), then the
  chassis is put at the spawn position and the wheels under it. The hinge, suspension and
  tether constraints go to the engine only and are not modelled. The world's list holds each
  body as it was when it was added.
\<close>

fun createWheels :: "CANNON \<Rightarrow> vec3 \<Rightarrow> vec3 list \<Rightarrow> physicsWorld \<Rightarrow> body list \<times> physicsWorld" where
  "createWheels L p [] pw = ([], pw)"
| "createWheels L p (off # offs) pw =
     (let (wheelBody, pw1) =
            createWheelBody L
              (Vec3 (vec_x p + vec_x off) (vec_y p + vec_y off) (vec_z p + vec_z off)) pw;
          (ws, pw2) = createWheels L p offs pw1
      in (wheelBody # ws, pw2))"

definition Car_new :: "CANNON \<Rightarrow> physicsWorld \<Rightarrow> vec3 \<Rightarrow> car \<times> physicsWorld" where
  "Car_new L pw p =
     (let startY = max (vec_y p) (height / 2 + 0.5);
          chassis = \<lparr> mass = 1500, position = Vec3 (vec_x p) startY (vec_z p),
                      quaternion = Quaternion 0 0 0 1, velocity = Vec3 0 0 0,
                      angularVelocity = Vec3 0 0 0,
                      linearDamping = 0.1, angularDamping = 0.5, forces = [] \<rparr>;
          pw1 = addBody chassis pw;
          (ws, pw2) = createWheels L p wheelPositions pw1;
          (bumper, pw3) =
            createSoftBody L
              (map (\<lambda>pos. Vec3 (vec_x p + vec_x pos) (vec_y p + vec_y pos) (vec_z p + vec_z pos))
                   frontBumperPositions)
              100 1000 0.3 pw2;
          c = \<lparr> carPosition = p, controls = noControls, speed = 0, steering = 0,
                chassisBody = chassis\<lparr>position := Vec3 (vec_x p) (vec_y p) (vec_z p)\<rparr>,
                wheelBodies = ws, frontBumper = bumper \<rparr>
      in (resetWheelPositions c, pw3))"

text \<open>
  What can happen to a car, in any order: a key goes down or up, a frame calls
  \<open>Car.update\<close>, \<open>updateSteering\<close> or \<open>updateDriving\<close> is called by itself, or \<open>reset\<close>
  is.
\<close>

datatype event =
    KeyDown string
  | KeyUp string
  | Update number
  | UpdateSteering real
  | UpdateDriving real
  | Reset

fun exec :: "CANNON \<Rightarrow> event \<Rightarrow> car \<Rightarrow> car" where
  "exec L (KeyDown key) c = keydown L key c"
| "exec L (KeyUp key) c = keyup key c"
| "exec L (Update deltaTime) c = Car_update L deltaTime c"
| "exec L (UpdateSteering deltaTime) c = updateSteering L deltaTime c"
| "exec L (UpdateDriving deltaTime) c = updateDriving L deltaTime c"
| "exec L Reset c = reset L c"

definition run :: "CANNON \<Rightarrow> event list \<Rightarrow> car \<Rightarrow> car" where
  "run L es c = fold (exec L) es c"

text \<open>An empty world and the car of \<open>main.js\<close>, spawned at \<open>(0, 5, 0)\<close>.\<close>

definition emptyWorld :: physicsWorld where
  "emptyWorld = \<lparr> worldBodies = [], postStep = [], steps = [] \<rparr>"

definition demoCar :: car where
  "demoCar = fst (Car_new cannon emptyWorld (Vec3 0 5 0))"

section \<open>Auxiliary notions for the statements\<close>

text \<open>The two ends of a spring, as a pair of particle indices.\<close>

definition ends :: "spring \<Rightarrow> nat \<times> nat" where
  "ends s = (bodyA s, bodyB s)"

text \<open>A body with its position and its two velocities blanked out.\<close>

definition kinematicsErased :: "body \<Rightarrow> body" where
  "kinematicsErased b =
     b\<lparr>position := Vec3 0 0 0, velocity := Vec3 0 0 0, angularVelocity := Vec3 0 0 0\<rparr>"

text \<open>The steering angle is within the lock.\<close>

definition inRange :: "car \<Rightarrow> bool" where
  "inRange c \<longleftrightarrow> - 0.5 \<le> steering c \<and> steering c \<le> 0.5"

text \<open>
  For the binary64 steering angle: a number that is exactly 0; an angle between 0 and one
  half, and one between minus one half and 0; neither steering key held.
\<close>

definition isZero :: "double \<Rightarrow> bool" where
  "isZero a = (case a of Double m e \<Rightarrow> m = 0 | _ \<Rightarrow> False)"




text \<open>
  A car with the brake flag and the two damping coefficients of the rear wheels blanked
  out: what is left is everything else \<open>updateDriving\<close> can have changed.
\<close>

definition dampingErased :: "car \<Rightarrow> car" where
  "dampingErased c =
     (let ws = wheelBodies c;
          ws1 = ws[2 := (ws ! 2)\<lparr>angularDamping := 0, linearDamping := 0\<rparr>];
          ws2 = ws1[3 := (ws1 ! 3)\<lparr>angularDamping := 0, linearDamping := 0\<rparr>]
      in c\<lparr>controls := (controls c)\<lparr>brake := False\<rparr>, wheelBodies := ws2\<rparr>)"

text \<open>
  A key-down event of one of the five control keys; a car with no flag set and the steering
  centred.
\<close>

definition pressesControl :: "event \<Rightarrow> bool" where
  "pressesControl e =
     (case e of
        KeyDown key \<Rightarrow> toLowerCase key \<in> {''w'', ''s'', ''a'', ''d'', '' ''}
      | _ \<Rightarrow> False)"

definition idle :: "car \<Rightarrow> bool" where
  "idle c \<longleftrightarrow> controls c = noControls \<and> steering c = 0"

section \<open>Basic facts\<close>

lemma run_Nil [simp]: "run L [] c = c"
  by (simp add: run_def)

lemma run_Cons [simp]: "run L (e # es) c = run L es (exec L e c)"
  by (simp add: run_def)

lemma map_index_cong:
  assumes "\<And>i. i < length xs \<Longrightarrow> g i = f (xs ! i)"
  shows "map g [0 ..< length xs] = map f xs"
proof (rule nth_equalityI)
  show "length (map g [0 ..< length xs]) = length (map f xs)" by simp
next
  fix i assume "i < length (map g [0 ..< length xs])"
  then have i: "i < length xs" by simp
  have "g i = f (xs ! i)" using i by (rule assms)
  then show "map g [0 ..< length xs] ! i = map f xs ! i" using i by simp
qed

subsection \<open>The spring network\<close>

lemma distinct_pairs:
  "distinct js \<Longrightarrow> (\<And>i. distinct (f i)) \<Longrightarrow>
   distinct (concat (map (\<lambda>i. map (Pair i) (f i)) js))"
  by (induction js) (auto simp: distinct_map inj_on_def)

lemma set_pairs:
  "set (concat (map (\<lambda>i. map (Pair i) (f i)) js)) = {(i, j). i \<in> set js \<and> j \<in> set (f i)}"
  by auto

lemma ends_createSprings:
  "map ends (createSprings L bs k d) =
     concat (map (\<lambda>i. map (Pair i) [i + 1 ..< length bs]) [0 ..< length bs])"
  by (simp add: createSprings_def map_concat newSpring_def comp_def ends_def)

lemma distinct_ends: "distinct (map ends (createSprings L bs k d))"
  unfolding ends_createSprings by (rule distinct_pairs) simp_all

lemma set_ends:
  "set (map ends (createSprings L bs k d)) = {(i, j). i < j \<and> j < length bs}"
  unfolding ends_createSprings set_pairs by auto

lemma spring_props:
  assumes "s \<in> set (createSprings L bs k d)"
  shows "bodyA s < bodyB s \<and> bodyB s < length bs \<and>
         restLength s = distanceTo (position (bs ! bodyA s)) (position (bs ! bodyB s))"
  using assms by (auto simp: createSprings_def newSpring_def)

lemma one_spring_ordered:
  assumes "i < j" and "j < length bs"
  shows "length (filter (\<lambda>s. {bodyA s, bodyB s} = {i, j}) (createSprings L bs k d)) = 1"
proof -
  let ?cs = "createSprings L bs k d"
  have "filter (\<lambda>s. {bodyA s, bodyB s} = {i, j}) ?cs = filter (\<lambda>s. ends s = (i, j)) ?cs"
  proof (rule filter_cong[OF refl])
    fix s assume "s \<in> set ?cs"
    then have "bodyA s < bodyB s" using spring_props by blast
    then show "({bodyA s, bodyB s} = {i, j}) = (ends s = (i, j))"
      using assms(1) by (auto simp: ends_def doubleton_eq_iff)
  qed
  then have "length (filter (\<lambda>s. {bodyA s, bodyB s} = {i, j}) ?cs)
      = length (filter (\<lambda>p. p = (i, j)) (map ends ?cs))"
    by (simp add: filter_map comp_def)
  also have "\<dots> = card ({p. p = (i, j)} \<inter> set (map ends ?cs))"
    using distinct_length_filter[OF distinct_ends, of "\<lambda>p. p = (i, j)" L bs k d] by simp
  also have "{p. p = (i, j)} \<inter> set (map ends ?cs) = {(i, j)}"
    unfolding set_ends using assms by auto
  finally show ?thesis by simp
qed

lemma one_spring:
  assumes "i < length bs" and "j < length bs" and "i \<noteq> j"
  shows "length (filter (\<lambda>s. {bodyA s, bodyB s} = {i, j}) (createSprings L bs k d)) = 1"
proof (cases "i < j")
  case True
  then show ?thesis using assms by (simp add: one_spring_ordered)
next
  case False
  then have "j < i" using assms(3) by simp
  then have "length (filter (\<lambda>s. {bodyA s, bodyB s} = {j, i}) (createSprings L bs k d)) = 1"
    using assms by (simp add: one_spring_ordered)
  then show ?thesis by (simp add: insert_commute)
qed

lemma spring_coefficients:
  assumes "s \<in> set (createSprings L bs k d)"
  shows "stiffness s = (if k = 0 then defaultStiffness L else k) \<and>
         damping s = (if d = 0 then defaultDamping L else d)"
  using assms by (auto simp: createSprings_def newSpring_def)

lemma createSprings3:
  "createSprings L [a, b, c] k d =
     [newSpring L [a, b, c] k d 0 1, newSpring L [a, b, c] k d 0 2,
      newSpring L [a, b, c] k d 1 2]"
  by (simp add: createSprings_def upt_rec numeral_2_eq_2 numeral_3_eq_3)

lemma bodies_createSoftBody:
  "bodies (fst (createSoftBody L positions m k d pw)) =
     map (newParticle L (m / real (length positions))) positions"
  by (simp add: createSoftBody_def Let_def)

lemma constraints_createSoftBody:
  "constraints (fst (createSoftBody L positions m k d pw)) =
     createSprings L (map (newParticle L (m / real (length positions))) positions) k d"
  by (simp add: createSoftBody_def Let_def)

lemma position_newParticle [simp]: "position (newParticle L m p) = p"
  by (simp add: newParticle_def)

subsection \<open>What each operation leaves alone\<close>

lemma steering_reset [simp]: "steering (reset L c) = 0"
  by (simp add: reset_def Let_def)

lemma speed_reset [simp]: "speed (reset L c) = 0"
  by (simp add: reset_def Let_def)

lemma controls_reset [simp]: "controls (reset L c) = noControls"
  by (simp add: reset_def Let_def)

lemma constraints_reset [simp]:
  "constraints (frontBumper (reset L c)) = constraints (frontBumper c)"
  by (simp add: reset_def Let_def resetWheelPositions_def)

lemma steering_updateDriving [simp]: "steering (updateDriving L dt c) = steering c"
  by (simp add: updateDriving_def Let_def)

lemma controls_updateDriving [simp]: "controls (updateDriving L dt c) = controls c"
  by (simp add: updateDriving_def Let_def)

lemma frontBumper_updateDriving [simp]: "frontBumper (updateDriving L dt c) = frontBumper c"
  by (simp add: updateDriving_def Let_def)

lemma chassisBody_updateDriving [simp]: "chassisBody (updateDriving L dt c) = chassisBody c"
  by (simp add: updateDriving_def Let_def)

lemma controls_updateSteering [simp]: "controls (updateSteering L dt c) = controls c"
  by (simp add: updateSteering_def Let_def)

lemma frontBumper_updateSteering [simp]: "frontBumper (updateSteering L dt c) = frontBumper c"
  by (simp add: updateSteering_def Let_def)

lemma chassisBody_updateSteering [simp]: "chassisBody (updateSteering L dt c) = chassisBody c"
  by (simp add: updateSteering_def Let_def)

lemma steering_keyup [simp]: "steering (keyup k c) = steering c"
  by (simp add: keyup_def Let_def)

lemma steering_keydown: "steering (keydown L k c) = steering c \<or> steering (keydown L k c) = 0"
  by (simp add: keydown_def Let_def)

lemma constraints_Car_update [simp]:
  "constraints (frontBumper (Car_update L dt c)) = constraints (frontBumper c)"
  by (simp add: Car_update_def Let_def split: number.splits)

lemma constraints_keydown [simp]:
  "constraints (frontBumper (keydown L k c)) = constraints (frontBumper c)"
  by (simp add: keydown_def Let_def)

lemma constraints_keyup [simp]:
  "constraints (frontBumper (keyup k c)) = constraints (frontBumper c)"
  by (simp add: keyup_def Let_def)

lemma constraints_exec [simp]:
  "constraints (frontBumper (exec L e c)) = constraints (frontBumper c)"
  by (cases e) simp_all

lemma constraints_run:
  "constraints (frontBumper (run L es c)) = constraints (frontBumper c)"
  by (induction es arbitrary: c) simp_all

lemma kinematicsErased_moved [simp]:
  "kinematicsErased (b\<lparr>position := p, velocity := v, angularVelocity := w\<rparr>) = kinematicsErased b"
  by (simp add: kinematicsErased_def)

lemma bodies_reset:
  "bodies (frontBumper (reset L c)) =
     map (\<lambda>i. (bodies (frontBumper c) ! i)
            \<lparr> position :=
                Vec3 (vec_x (carPosition c) + length_car / 2 + 0.1)
                     (vec_y (carPosition c) + height - height / 3)
                     (vec_z (carPosition c) - (width * 0.9 / 2)
                        + ((width * 0.9) / (real (length (bodies (frontBumper c))) - 1)) * real i),
              velocity := Vec3 0 0 0,
              angularVelocity := Vec3 0 0 0 \<rparr>)
         [0 ..< length (bodies (frontBumper c))]"
  by (simp add: reset_def Let_def resetWheelPositions_def)

lemma bumper_reset_only_kinematics:
  "map kinematicsErased (bodies (frontBumper (reset L c))) =
   map kinematicsErased (bodies (frontBumper c))"
  unfolding bodies_reset map_map comp_def
  by (rule map_index_cong) simp

subsection \<open>The steering angle\<close>

lemma steering_updateSteering:
  "steering (updateSteering L dt c) =
     (if left (controls c) then min (steering c + 2 * dt) maxSteeringAngle
      else if right (controls c) then max (steering c - 2 * dt) (- maxSteeringAngle)
      else if steering c > 0 then max (steering c - 3 * dt) 0
      else if steering c < 0 then min (steering c + 3 * dt) 0
      else steering c)"
  by (simp add: updateSteering_def Let_def)

lemma inRange_updateSteering:
  "inRange c \<Longrightarrow> 0 \<le> dt \<Longrightarrow> inRange (updateSteering L dt c)"
  by (auto simp: inRange_def steering_updateSteering maxSteeringAngle_def min_def max_def)

lemma inRange_Car_update: "inRange c \<Longrightarrow> inRange (Car_update L d c)"
  using inRange_updateSteering[of c _ L]
  by (auto simp: Car_update_def Let_def inRange_def split: number.splits)

lemma inRange_exec:
  assumes "inRange c" and "\<forall>dt. e = UpdateSteering dt \<longrightarrow> 0 \<le> dt"
  shows "inRange (exec L e c)"
proof (cases e)
  case (KeyDown k)
  then show ?thesis using steering_keydown[of L k c] assms(1)
    by (auto simp: inRange_def)
next
  case (UpdateSteering dt)
  then show ?thesis using assms by (simp add: inRange_updateSteering)
next
  case (Update d)
  then show ?thesis using assms(1) by (simp add: inRange_Car_update)
qed (use assms(1) in \<open>auto simp: inRange_def\<close>)

lemma inRange_run:
  "inRange c \<Longrightarrow> (\<forall>dt. UpdateSteering dt \<in> set es \<longrightarrow> 0 \<le> dt) \<Longrightarrow> inRange (run L es c)"
proof (induction es arbitrary: c)
  case Nil then show ?case by simp
next
  case (Cons e es)
  have "inRange (exec L e c)" using Cons.prems by (intro inRange_exec) auto
  then show ?case using Cons by simp
qed

subsection \<open>The demonstration car\<close>

lemma createWheels_length [simp]: "length (fst (createWheels L p offs pw)) = length offs"
proof (induction offs arbitrary: pw)
  case Nil
  show ?case by simp
next
  case (Cons off offs)
  obtain w pw1 where w: "createWheelBody L
      (Vec3 (vec_x p + vec_x off) (vec_y p + vec_y off) (vec_z p + vec_z off)) pw = (w, pw1)"
    by (cases "createWheelBody L
      (Vec3 (vec_x p + vec_x off) (vec_y p + vec_y off) (vec_z p + vec_z off)) pw")
  obtain ws pw2 where ws: "createWheels L p offs pw1 = (ws, pw2)"
    by (cases "createWheels L p offs pw1")
  have "length ws = length offs" using Cons.IH[of pw1] ws by simp
  then show ?case using w ws by simp
qed

lemma steering_demoCar [simp]: "steering demoCar = 0"
  by (simp add: demoCar_def Car_new_def Let_def resetWheelPositions_def split: prod.splits)

lemma controls_demoCar [simp]: "controls demoCar = noControls"
  by (simp add: demoCar_def Car_new_def Let_def resetWheelPositions_def split: prod.splits)

subsection \<open>Driving\<close>

lemma engineForce_cases:
  "engineForce ctl = (if forward ctl then 500 else if backward ctl then - 250 else 0)"
  by (simp add: engineForce_def maxForce_def)

lemma forces_driveWheel:
  "forces (driveWheel L ctl w) =
     forces w @ (if forward ctl then [(scale (vmult L (quaternion w) (Vec3 1 0 0)) 500, position w)]
                 else if backward ctl then [(scale (vmult L (quaternion w) (Vec3 1 0 0)) (- 250), position w)]
                 else [])"
  by (simp add: driveWheel_def Let_def engineForce_cases applyForce_def)

lemma damping_driveWheel:
  "angularDamping (driveWheel L ctl w) = (if brake ctl then 0.95 else 0.1)"
  "linearDamping (driveWheel L ctl w) = (if brake ctl then 0.9 else 0.05)"
  by (simp_all add: driveWheel_def Let_def applyForce_def)

lemma length_updateDriving [simp]:
  "length (wheelBodies (updateDriving L dt c)) = length (wheelBodies c)"
  by (simp add: updateDriving_def Let_def)

lemma rear_updateDriving:
  assumes "length (wheelBodies c) = 4" and "i = 2 \<or> i = 3"
  shows "wheelBodies (updateDriving L dt c) ! i = driveWheel L (controls c) (wheelBodies c ! i)"
  using assms by (auto simp: updateDriving_def Let_def)

lemma front_updateDriving:
  assumes "i = 0 \<or> i = 1"
  shows "wheelBodies (updateDriving L dt c) ! i = wheelBodies c ! i"
  using assms by (auto simp: updateDriving_def Let_def)

lemma driveWheel_brake_erased:
  "(driveWheel L (ctl\<lparr>brake := b\<rparr>) w)\<lparr>angularDamping := 0, linearDamping := 0\<rparr> =
   (driveWheel L ctl w)\<lparr>angularDamping := 0, linearDamping := 0\<rparr>"
  by (simp add: driveWheel_def Let_def engineForce_def applyForce_def)

lemma dampingErased_updateDriving:
  assumes "length (wheelBodies c) = 4"
  shows "dampingErased (updateDriving L dt (c\<lparr>controls := (controls c)\<lparr>brake := b\<rparr>\<rparr>)) =
         dampingErased (updateDriving L dt c)"
  using assms
  by (simp add: dampingErased_def updateDriving_def Let_def driveWheel_brake_erased
        list_update_overwrite list_update_swap[of 3 2])

lemma carPosition_updateSteering [simp]: "carPosition (updateSteering L dt c) = carPosition c"
  by (simp add: updateSteering_def Let_def)

lemma carPosition_updateDriving [simp]: "carPosition (updateDriving L dt c) = carPosition c"
  by (simp add: updateDriving_def Let_def)

subsection \<open>Reset\<close>

lemma chassisBody_reset:
  "chassisBody (reset L c) = (chassisBody c)
     \<lparr> position := Vec3 (vec_x (carPosition c)) (vec_y (carPosition c) + height) (vec_z (carPosition c)),
       quaternion := Quaternion 0 0 0 1,
       velocity := Vec3 0 0 0,
       angularVelocity := Vec3 0 0 0 \<rparr>"
  by (simp add: reset_def Let_def resetWheelPositions_def)

lemma wheelBodies_reset:
  "wheelBodies (reset L c) =
     map (\<lambda>i. (wheelBodies c ! i)
            \<lparr> position := Vec3 (vec_x (carPosition c) + vec_x (wheelPositions ! i))
                              (vec_y (carPosition c) + height + vec_y (wheelPositions ! i))
                              (vec_z (carPosition c) + vec_z (wheelPositions ! i)),
              quaternion := setFromAxisAngle L (Vec3 0 0 1) (pi / 2),
              velocity := Vec3 0 0 0,
              angularVelocity := Vec3 0 0 0,
              angularDamping := 0.1,
              linearDamping := 0.05 \<rparr>)
         [0 ..< length (wheelBodies c)]"
  by (simp add: reset_def Let_def resetWheelPositions_def)

lemma carPosition_reset [simp]: "carPosition (reset L c) = carPosition c"
  by (simp add: reset_def Let_def resetWheelPositions_def)

lemma length_wheelBodies_reset [simp]:
  "length (wheelBodies (reset L c)) = length (wheelBodies c)"
  by (simp add: wheelBodies_reset)

lemma quaternion_createWheelBody:
  "quaternion (fst (createWheelBody L pos pw)) = setFromAxisAngle L (Vec3 0 0 1) (pi / 2)"
  by (simp add: createWheelBody_def Let_def)

lemma frontBumperPositions_nth:
  "i < 8 \<Longrightarrow> frontBumperPositions ! i =
     Vec3 (length_car / 2 + 0.1) (- height / 3) (- (width * 0.9) / 2 + ((width * 0.9) / 7) * real i)"
  by (simp add: frontBumperPositions_def frontBumperPosition_def Let_def)

lemma frontBumper_resetWheelPositions [simp]:
  "frontBumper (resetWheelPositions c) = frontBumper c"
  by (simp add: resetWheelPositions_def Let_def)

lemma chassisBody_resetWheelPositions [simp]:
  "chassisBody (resetWheelPositions c) = chassisBody c"
  by (simp add: resetWheelPositions_def Let_def)

subsection \<open>The constructed car\<close>

lemma createWheels_fst:
  "fst (createWheels L p offs pw) =
     map (\<lambda>off. \<lparr> mass = 30,
                   position = Vec3 (vec_x p + vec_x off) (vec_y p + vec_y off) (vec_z p + vec_z off),
                   quaternion = setFromAxisAngle L (Vec3 0 0 1) (pi / 2),
                   velocity = Vec3 0 0 0, angularVelocity = Vec3 0 0 0,
                   linearDamping = defaultLinearDamping L, angularDamping = 0.2,
                   forces = [] \<rparr>) offs"
proof (induction offs arbitrary: pw)
  case Nil
  show ?case by simp
next
  case (Cons off offs)
  obtain w pw1 where w: "createWheelBody L
      (Vec3 (vec_x p + vec_x off) (vec_y p + vec_y off) (vec_z p + vec_z off)) pw = (w, pw1)"
    by (cases "createWheelBody L
      (Vec3 (vec_x p + vec_x off) (vec_y p + vec_y off) (vec_z p + vec_z off)) pw")
  obtain ws pw2 where ws: "createWheels L p offs pw1 = (ws, pw2)"
    by (cases "createWheels L p offs pw1")
  have 1: "ws = map (\<lambda>off. \<lparr> mass = 30,
                   position = Vec3 (vec_x p + vec_x off) (vec_y p + vec_y off) (vec_z p + vec_z off),
                   quaternion = setFromAxisAngle L (Vec3 0 0 1) (pi / 2),
                   velocity = Vec3 0 0 0, angularVelocity = Vec3 0 0 0,
                   linearDamping = defaultLinearDamping L, angularDamping = 0.2,
                   forces = [] \<rparr>) offs"
    using Cons.IH[of pw1] by (simp only: ws fst_conv)
  have 2: "w = \<lparr> mass = 30,
                   position = Vec3 (vec_x p + vec_x off) (vec_y p + vec_y off) (vec_z p + vec_z off),
                   quaternion = setFromAxisAngle L (Vec3 0 0 1) (pi / 2),
                   velocity = Vec3 0 0 0, angularVelocity = Vec3 0 0 0,
                   linearDamping = defaultLinearDamping L, angularDamping = 0.2,
                   forces = [] \<rparr>"
    using w by (simp add: createWheelBody_def Let_def)
  have "fst (createWheels L p (off # offs) pw) = w # ws"
    by (simp add: w ws)
  then show ?case by (simp only: 1 2 list.map)
qed

lemma wheelBodies_Car_new:
  "wheelBodies (fst (Car_new L pw p)) =
     map (\<lambda>off. \<lparr> mass = 30,
                   position = Vec3 (vec_x p + vec_x off) (vec_y p + vec_y off) (vec_z p + vec_z off),
                   quaternion = setFromAxisAngle L (Vec3 0 0 1) (pi / 2),
                   velocity = Vec3 0 0 0, angularVelocity = Vec3 0 0 0,
                   linearDamping = defaultLinearDamping L, angularDamping = 0.2,
                   forces = [] \<rparr>) wheelPositions"
  (is "_ = ?ws")
proof -
  have "wheelBodies (fst (Car_new L pw p)) =
     map (\<lambda>i. (?ws ! i)\<lparr>position := Vec3 (vec_x p + vec_x (wheelPositions ! i))
                  (vec_y p + vec_y (wheelPositions ! i)) (vec_z p + vec_z (wheelPositions ! i))\<rparr>)
       [0 ..< length ?ws]"
    by (simp add: Car_new_def Let_def case_prod_beta resetWheelPositions_def createWheels_fst)
  also have "\<dots> = map (\<lambda>w. w) ?ws"
    by (rule map_index_cong) simp
  finally show ?thesis by simp
qed

lemma bodies_Car_new:
  "bodies (frontBumper (fst (Car_new L pw p))) =
     map (\<lambda>pos. newParticle L (100 / 8)
            (Vec3 (vec_x p + vec_x pos) (vec_y p + vec_y pos) (vec_z p + vec_z pos)))
         frontBumperPositions"
proof -
  have "length frontBumperPositions = 8" by (simp add: frontBumperPositions_def)
  then show ?thesis
    by (simp add: Car_new_def Let_def case_prod_beta bodies_createSoftBody comp_def)
qed

lemma position_chassis_Car_new:
  "position (chassisBody (fst (Car_new L pw p))) = p"
  by (simp add: Car_new_def Let_def case_prod_beta)

lemma length_wheelBodies_demoCar [simp]: "length (wheelBodies demoCar) = 4"
  by (simp add: demoCar_def wheelBodies_Car_new wheelPositions_def)

lemma wheel2_demoCar:
  "wheelBodies demoCar ! 2 =
     \<lparr> mass = 30, position = Vec3 (- 1.35) 4.7 (- 0.9),
       quaternion = Quaternion 0 0 (sqrt 2 / 2) (sqrt 2 / 2),
       velocity = Vec3 0 0 0, angularVelocity = Vec3 0 0 0,
       linearDamping = 0.01, angularDamping = 0.2, forces = [] \<rparr>"
  by (simp add: demoCar_def wheelBodies_Car_new wheelPositions_def cannon_def
        length_car_def height_def width_def wheelRadius_def sin_45 cos_45)

lemma demo_both:
  "run cannon [KeyDown ''w'', KeyDown ''s''] demoCar =
     demoCar\<lparr>controls := noControls\<lparr>forward := True, backward := True\<rparr>\<rparr>"
  by (simp add: keydown_def toLowerCase_def)

lemma carPosition_demoCar [simp]: "carPosition demoCar = Vec3 0 5 0"
  by (simp add: demoCar_def Car_new_def Let_def case_prod_beta resetWheelPositions_def)

lemma length_bumper_demoCar [simp]: "length (bodies (frontBumper demoCar)) = 8"
  by (simp add: demoCar_def bodies_Car_new frontBumperPositions_def)

text \<open>
  The constructor gives the car four wheels and eight bumper particles, and no operation
  changes either number, so the indexed reads and writes of the wheels are always in range.
\<close>

lemma length_wheelBodies_updateSteering [simp]:
  "length (wheelBodies (updateSteering L dt c)) = length (wheelBodies c)"
  by (simp add: updateSteering_def Let_def)

lemma length_bodies_reset [simp]:
  "length (bodies (frontBumper (reset L c))) = length (bodies (frontBumper c))"
  by (simp add: bodies_reset)

lemma lengths_exec:
  "length (wheelBodies (exec L e c)) = length (wheelBodies c) \<and>
   length (bodies (frontBumper (exec L e c))) = length (bodies (frontBumper c))"
  by (cases e) (simp_all add: keydown_def keyup_def Car_update_def Let_def split: number.splits)

lemma lengths_run:
  "length (wheelBodies (run L es c)) = length (wheelBodies c) \<and>
   length (bodies (frontBumper (run L es c))) = length (bodies (frontBumper c))"
  by (induction es arbitrary: c) (simp_all add: lengths_exec)

lemma lengths_Car_new:
  "length (wheelBodies (fst (Car_new L pw p))) = 4 \<and>
   length (bodies (frontBumper (fst (Car_new L pw p)))) = 8"
  by (simp add: wheelBodies_Car_new bodies_Car_new wheelPositions_def frontBumperPositions_def)

subsection \<open>A car at rest stays at rest\<close>

lemma map_forces_update:
  assumes "forces y = forces (xs ! i)"
  shows "map forces (xs[i := y]) = map forces xs"
proof (cases "i < length xs")
  case True
  then show ?thesis using assms by (simp add: map_update list_update_same_conv)
next
  case False
  then have "xs[i := y] = xs" by (intro list_update_beyond) simp
  then show ?thesis by simp
qed

lemma forces_wheels_reset: "map forces (wheelBodies (reset L c)) = map forces (wheelBodies c)"
  unfolding wheelBodies_reset map_map comp_def
  by (rule map_index_cong) simp

lemma forces_wheels_updateSteering:
  "map forces (wheelBodies (updateSteering L dt c)) = map forces (wheelBodies c)"
  by (simp add: updateSteering_def Let_def map_forces_update)

lemma forces_wheels_updateDriving:
  assumes "controls c = noControls"
  shows "map forces (wheelBodies (updateDriving L dt c)) = map forces (wheelBodies c)"
proof -
  have "\<And>w. forces (driveWheel L noControls w) = forces w"
    by (simp add: forces_driveWheel noControls_def)
  then show ?thesis using assms by (simp add: updateDriving_def Let_def map_forces_update)
qed

lemma idle_reset [simp]: "idle (reset L c)"
  by (simp add: idle_def)

lemma idle_updateSteering: "idle c \<Longrightarrow> idle (updateSteering L dt c)"
  by (simp add: idle_def steering_updateSteering noControls_def)

lemma idle_updateDriving: "idle c \<Longrightarrow> idle (updateDriving L dt c)"
  by (simp add: idle_def)

lemma idle_Car_update: "idle c \<Longrightarrow> idle (Car_update L d c)"
  by (simp add: Car_update_def Let_def idle_updateSteering idle_updateDriving split: number.splits)

lemma forces_wheels_Car_update:
  assumes "idle c"
  shows "map forces (wheelBodies (Car_update L d c)) = map forces (wheelBodies c)"
proof -
  have "controls (updateSteering L dt c) = noControls" for dt
    using assms by (simp add: idle_def)
  then show ?thesis
    by (simp add: Car_update_def Let_def forces_wheels_reset forces_wheels_updateDriving
          forces_wheels_updateSteering split: number.splits)
qed

lemma idle_keyup: "idle c \<Longrightarrow> idle (keyup k c)"
  by (simp add: idle_def keyup_def Let_def noControls_def)

lemma wheelBodies_keyup [simp]: "wheelBodies (keyup k c) = wheelBodies c"
  by (simp add: keyup_def Let_def)

lemma idle_keydown:
  "idle c \<Longrightarrow> \<not> pressesControl (KeyDown k) \<Longrightarrow> idle (keydown L k c)"
  by (simp add: pressesControl_def keydown_def Let_def)

lemma forces_wheels_keydown:
  "map forces (wheelBodies (keydown L k c)) = map forces (wheelBodies c)"
  by (simp add: keydown_def Let_def forces_wheels_reset)

lemma idle_exec:
  assumes "idle c" and "\<not> pressesControl e"
  shows "idle (exec L e c) \<and> map forces (wheelBodies (exec L e c)) = map forces (wheelBodies c)"
proof (cases e)
  case (KeyDown k)
  then show ?thesis using assms by (simp add: idle_keydown forces_wheels_keydown)
next
  case (KeyUp k)
  then show ?thesis using assms by (simp add: idle_keyup)
next
  case (Update d)
  then show ?thesis using assms by (simp add: idle_Car_update forces_wheels_Car_update)
next
  case (UpdateSteering dt)
  then show ?thesis using assms by (simp add: idle_updateSteering forces_wheels_updateSteering)
next
  case (UpdateDriving dt)
  then show ?thesis using assms
    by (simp add: idle_updateDriving forces_wheels_updateDriving idle_def)
next
  case Reset
  then show ?thesis by (simp add: forces_wheels_reset)
qed

lemma idle_run:
  assumes "idle c" and "\<forall>e \<in> set es. \<not> pressesControl e"
  shows "idle (run L es c) \<and> map forces (wheelBodies (run L es c)) = map forces (wheelBodies c)"
  using assms
proof (induction es arbitrary: c)
  case Nil
  then show ?case by simp
next
  case (Cons e es)
  have 1: "idle (exec L e c)"
    and 2: "map forces (wheelBodies (exec L e c)) = map forces (wheelBodies c)"
    using idle_exec[of c e L] Cons.prems by simp_all
  have "idle (run L es (exec L e c)) \<and>
        map forces (wheelBodies (run L es (exec L e c))) = map forces (wheelBodies (exec L e c))"
    using Cons.IH[OF 1] Cons.prems(2) by simp
  then show ?case using 2 by simp
qed

subsection \<open>Rounding and the binary64 steering angle\<close>









lemma round64_zero [simp]: "round64 0 e = Double 0 0"
  by (simp add: round64_def)











lemma neg64_neg64 [simp]: "neg64 (neg64 a) = a"
  by (cases a) simp_all



lemma lt64_neg: "lt64 (neg64 a) (neg64 b) = lt64 b a"
  by (cases a; cases b) (simp_all add: Let_def min.commute)






lemma isZero_neg [simp]: "isZero (neg64 a) = isZero a"
  by (cases a) (simp_all add: isZero_def)

lemma le64_neg: "le64 (neg64 x) y = le64 (neg64 y) x"
proof -
  have n: "neg64 z = NaN64 \<longleftrightarrow> z = NaN64" for z by (cases z) simp_all
  have "lt64 y (neg64 x) = lt64 x (neg64 y)"
    using lt64_neg[of "neg64 y" x] by simp
  then show ?thesis by (auto simp: le64_def n)
qed









section \<open>The claims\<close>

text \<open>
  C1. \<open>createSoftBody(positions, mass, stiffness, damping)\<close> creates one particle per
  position, at that position, and exactly one spring for every unordered pair of particles;
  every spring joins a pair \<open>i < j\<close> and has as rest length the Euclidean distance of the
  two particles at creation, which is that of the two positions given. No key event, frame
  update or \<open>reset\<close> of the car changes the list of springs; \<open>reset\<close> changes, of a bumper
  particle, its position and its two velocities only.
\<close>

theorem softBody_springs:
  "(\<forall>i j. i < length positions \<and> j < length positions \<and> i \<noteq> j \<longrightarrow>
      length (filter (\<lambda>s. {bodyA s, bodyB s} = {i, j})
                (constraints (fst (createSoftBody L positions m k d pw)))) = 1) \<and>
   (\<forall>s \<in> set (constraints (fst (createSoftBody L positions m k d pw))).
      bodyA s < bodyB s \<and> bodyB s < length positions \<and>
      restLength s =
        distanceTo (position (bodies (fst (createSoftBody L positions m k d pw)) ! bodyA s))
                   (position (bodies (fst (createSoftBody L positions m k d pw)) ! bodyB s)) \<and>
      restLength s = distanceTo (positions ! bodyA s) (positions ! bodyB s)) \<and>
   length (bodies (fst (createSoftBody L positions m k d pw))) = length positions \<and>
   (\<forall>i. i < length positions \<longrightarrow>
      position (bodies (fst (createSoftBody L positions m k d pw)) ! i) = positions ! i) \<and>
   (\<forall>c es. constraints (frontBumper (run L es c)) = constraints (frontBumper c)) \<and>
   (\<forall>c. constraints (frontBumper (reset L c)) = constraints (frontBumper c) \<and>
        map kinematicsErased (bodies (frontBumper (reset L c))) =
        map kinematicsErased (bodies (frontBumper c)))"
proof (intro conjI allI impI ballI)
  let ?sb = "fst (createSoftBody L positions m k d pw)"
  let ?bs = "map (newParticle L (m / real (length positions))) positions"
  {
    fix i j assume "i < length positions \<and> j < length positions \<and> i \<noteq> j"
    then show "length (filter (\<lambda>s. {bodyA s, bodyB s} = {i, j}) (constraints ?sb)) = 1"
      unfolding constraints_createSoftBody by (intro one_spring) simp_all
  next
    fix s assume s: "s \<in> set (constraints ?sb)"
    have p: "bodyA s < bodyB s \<and> bodyB s < length ?bs \<and>
           restLength s = distanceTo (position (?bs ! bodyA s)) (position (?bs ! bodyB s))"
      using s unfolding constraints_createSoftBody by (rule spring_props)
    then show "bodyA s < bodyB s" "bodyB s < length positions"
      by simp_all
    from p show "restLength s =
        distanceTo (position (bodies ?sb ! bodyA s)) (position (bodies ?sb ! bodyB s))"
      by (simp only: bodies_createSoftBody)
    from p show "restLength s = distanceTo (positions ! bodyA s) (positions ! bodyB s)" by simp
  next
    show "length (bodies ?sb) = length positions" by (simp add: bodies_createSoftBody)
  next
    fix i assume "i < length positions"
    then show "position (bodies ?sb ! i) = positions ! i" by (simp add: bodies_createSoftBody)
  }
qed (simp_all add: constraints_run bumper_reset_only_kinematics)

theorem softBody_springs_witness:
  "length (filter (\<lambda>s. {bodyA s, bodyB s} = {0, 2})
     (constraints (fst (createSoftBody cannon [Vec3 0 0 0, Vec3 3 0 0, Vec3 3 4 0]
                          3 1000 0.3 emptyWorld)))) = 1
   \<and> restLength (constraints (fst (createSoftBody cannon [Vec3 0 0 0, Vec3 3 0 0, Vec3 3 4 0]
                                     3 1000 0.3 emptyWorld)) ! 1) = 5
   \<and> constraints (frontBumper (reset cannon demoCar)) = constraints (frontBumper demoCar)"
proof -
  let ?ps = "[Vec3 0 0 0, Vec3 3 0 0, Vec3 3 4 0]"
  let ?sb = "fst (createSoftBody cannon ?ps 3 1000 0.3 emptyWorld)"
  let ?s = "constraints ?sb ! 1"
  note T = softBody_springs[where L = cannon and positions = ?ps and m = 3 and k = 1000
      and d = "0.3" and pw = emptyWorld]
  have cs: "constraints ?sb =
      [newSpring cannon (bodies ?sb) 1000 0.3 0 1, newSpring cannon (bodies ?sb) 1000 0.3 0 2,
       newSpring cannon (bodies ?sb) 1000 0.3 1 2]"
    by (simp add: createSoftBody_def Let_def createSprings3)
  have mem: "?s \<in> set (constraints ?sb)"
    by (subst (2) cs, subst cs) simp
  have a: "bodyA ?s = 0" "bodyB ?s = 2"
    by (subst cs, simp add: newSpring_def)+
  from T mem have "restLength ?s = distanceTo (?ps ! bodyA ?s) (?ps ! bodyB ?s)"
    by blast
  then have "restLength ?s = distanceTo (Vec3 0 0 0) (Vec3 3 4 0)"
    unfolding a by simp
  then have r: "restLength ?s = 5"
    by (simp add: distanceTo_def real_sqrt_unique)
  have "(0::nat) < length ?ps \<and> (2::nat) < length ?ps \<and> (0::nat) \<noteq> 2" by simp
  with T have one: "length (filter (\<lambda>s. {bodyA s, bodyB s} = {0, 2}) (constraints ?sb)) = 1"
    by blast
  from T have "constraints (frontBumper (reset cannon demoCar)) = constraints (frontBumper demoCar)"
    by blast
  with one r show ?thesis by blast
qed

text \<open>
  C2. From steering angle 0, after any sequence of key events, frame updates, resets and
  direct calls of \<open>updateSteering\<close> and \<open>updateDriving\<close>, in which every \<open>updateSteering\<close>
  gets \<open>dt \<ge> 0\<close>, the steering angle is within \<open>[-0.5, 0.5]\<close>, and so it is after every
  prefix of the sequence.
\<close>

theorem steering_clamped:
  assumes "steering c = 0"
      and "\<forall>dt. UpdateSteering dt \<in> set es \<longrightarrow> 0 \<le> dt"
  shows "- 0.5 \<le> steering (run L (take n es) c) \<and> steering (run L (take n es) c) \<le> 0.5"
proof -
  have "inRange c" using assms(1) by (simp add: inRange_def)
  moreover have "\<forall>dt. UpdateSteering dt \<in> set (take n es) \<longrightarrow> 0 \<le> dt"
    using assms(2) by (meson in_set_takeD)
  ultimately have "inRange (run L (take n es) c)" by (rule inRange_run)
  then show ?thesis by (simp add: inRange_def)
qed

theorem steering_clamped_witness:
  "steering (run cannon (take 5 [KeyDown ''a'', UpdateSteering 1, KeyUp ''A'', KeyDown ''d'',
                                 UpdateSteering 5, Update (Num (1 / 60))]) demoCar) = - 0.5 \<and>
   - 0.5 \<le> steering (run cannon (take 5 [KeyDown ''a'', UpdateSteering 1, KeyUp ''A'',
                                 KeyDown ''d'', UpdateSteering 5, Update (Num (1 / 60))]) demoCar) \<and>
   steering (run cannon (take 5 [KeyDown ''a'', UpdateSteering 1, KeyUp ''A'', KeyDown ''d'',
                                 UpdateSteering 5, Update (Num (1 / 60))]) demoCar) \<le> 0.5"
proof -
  let ?es = "[KeyDown ''a'', UpdateSteering 1, KeyUp ''A'', KeyDown ''d'', UpdateSteering 5,
              Update (Num (1 / 60))]"
  have h1: "steering demoCar = 0" by simp
  have h2: "\<forall>dt. UpdateSteering dt \<in> set ?es \<longrightarrow> 0 \<le> dt" by auto
  have v: "steering (run cannon (take 5 ?es) demoCar) = - 0.5"
    by (simp add: keydown_def keyup_def toLowerCase_def steering_updateSteering noControls_def
          maxSteeringAngle_def)
  show ?thesis using steering_clamped[OF h1 h2, of cannon 5] v by simp
qed




text \<open>
  C4. On every \<open>updateDriving\<close> call of a car with its four wheels, each rear wheel
  (indices 2 and 3) receives: no force when neither \<open>forward\<close> nor \<open>backward\<close> is held;
  one force of \<open>+maxForce\<close> = 500 along the wheel's orientation applied to local \<open>+X\<close>, at
  the wheel's position, while \<open>forward\<close> is held; and one force of \<open>-maxForce * 0.5\<close> = -250
  along it while \<open>backward\<close> is held and \<open>forward\<close> is not. With both held, \<open>forward\<close> wins.
  The front wheels (indices 0 and 1), the chassis and the bumper are left as they were.
\<close>

theorem engine_force_rear_wheels:
  assumes "length (wheelBodies c) = 4"
  shows "(\<forall>i. i = 2 \<or> i = 3 \<longrightarrow>
            forces (wheelBodies (updateDriving L dt c) ! i) =
              forces (wheelBodies c ! i) @
                (if forward (controls c) then
                   [(scale (vmult L (quaternion (wheelBodies c ! i)) (Vec3 1 0 0)) 500,
                     position (wheelBodies c ! i))]
                 else if backward (controls c) then
                   [(scale (vmult L (quaternion (wheelBodies c ! i)) (Vec3 1 0 0)) (- 250),
                     position (wheelBodies c ! i))]
                 else [])) \<and>
         (\<forall>i. i = 0 \<or> i = 1 \<longrightarrow>
            wheelBodies (updateDriving L dt c) ! i = wheelBodies c ! i) \<and>
         chassisBody (updateDriving L dt c) = chassisBody c \<and>
         frontBumper (updateDriving L dt c) = frontBumper c"
  using assms by (simp add: rear_updateDriving front_updateDriving forces_driveWheel)

theorem engine_force_rear_wheels_witness:
  "forces (wheelBodies (updateDriving cannon (1 / 60)
             (demoCar\<lparr>controls := noControls\<lparr>backward := True\<rparr>\<rparr>)) ! 2) =
     [(Vec3 0 (- 250) 0, Vec3 (- 1.35) 4.7 (- 0.9))] \<and>
   wheelBodies (updateDriving cannon (1 / 60)
             (demoCar\<lparr>controls := noControls\<lparr>backward := True\<rparr>\<rparr>)) ! 0 = wheelBodies demoCar ! 0"
proof -
  let ?c = "demoCar\<lparr>controls := noControls\<lparr>backward := True\<rparr>\<rparr>"
  have h: "length (wheelBodies ?c) = 4" by simp
  note T = engine_force_rear_wheels[OF h, of cannon "1 / 60"]
  from T have "forces (wheelBodies (updateDriving cannon (1 / 60) ?c) ! 2) =
              forces (wheelBodies ?c ! 2) @
                (if forward (controls ?c) then
                   [(scale (vmult cannon (quaternion (wheelBodies ?c ! 2)) (Vec3 1 0 0)) 500,
                     position (wheelBodies ?c ! 2))]
                 else if backward (controls ?c) then
                   [(scale (vmult cannon (quaternion (wheelBodies ?c ! 2)) (Vec3 1 0 0)) (- 250),
                     position (wheelBodies ?c ! 2))]
                 else [])"
    by blast
  then have 1: "forces (wheelBodies (updateDriving cannon (1 / 60) ?c) ! 2) =
     [(Vec3 0 (- 250) 0, Vec3 (- 1.35) 4.7 (- 0.9))]"
    by (simp add: wheel2_demoCar noControls_def scale_def cannon_def Let_def)
  from T have "wheelBodies (updateDriving cannon (1 / 60) ?c) ! 0 = wheelBodies ?c ! 0"
    by blast
  with 1 show ?thesis by simp
qed

text \<open>
  Holding \<open>backward\<close> does not by itself give the reverse force: with \<open>w\<close> and \<open>s\<close> both
  down, the rear left wheel of the demonstration car gets \<open>+500\<close> along its forward
  direction, which there is \<open>(0, 1, 0)\<close>, and not \<open>-250\<close>.
\<close>

theorem engine_force_backward_counterexample:
  "backward (controls (run cannon [KeyDown ''w'', KeyDown ''s''] demoCar)) \<and>
   forces (wheelBodies (updateDriving cannon (1 / 60)
             (run cannon [KeyDown ''w'', KeyDown ''s''] demoCar)) ! 2) =
     [(Vec3 0 500 0, Vec3 (- 1.35) 4.7 (- 0.9))] \<and>
   scale (vmult cannon (quaternion (wheelBodies
             (run cannon [KeyDown ''w'', KeyDown ''s''] demoCar) ! 2)) (Vec3 1 0 0))
         (- maxForce * 0.5) = Vec3 0 (- 250) 0"
  unfolding demo_both
  by (simp add: rear_updateDriving forces_driveWheel wheel2_demoCar noControls_def
        scale_def cannon_def Let_def maxForce_def)

text \<open>
  C5. After \<open>reset()\<close> of a car with its four wheels, the chassis is at the rest pose (the
  spawn position raised by \<open>height\<close>, identity orientation, no velocity), and every wheel
  \<open>i\<close> is at the chassis position plus \<open>wheelPositions[i]\<close>, has the orientation it was
  created with (\<open>createWheelBody\<close>: a quarter turn about \<open>Z\<close>), and has zero linear and
  angular velocity.
\<close>

theorem reset_wheels:
  assumes "length (wheelBodies c) = 4" and "i < 4"
  shows "position (chassisBody (reset L c)) =
           Vec3 (vec_x (carPosition c)) (vec_y (carPosition c) + height) (vec_z (carPosition c)) \<and>
         quaternion (chassisBody (reset L c)) = Quaternion 0 0 0 1 \<and>
         velocity (chassisBody (reset L c)) = Vec3 0 0 0 \<and>
         angularVelocity (chassisBody (reset L c)) = Vec3 0 0 0 \<and>
         position (wheelBodies (reset L c) ! i) =
           Vec3 (vec_x (position (chassisBody (reset L c))) + vec_x (wheelPositions ! i))
                (vec_y (position (chassisBody (reset L c))) + vec_y (wheelPositions ! i))
                (vec_z (position (chassisBody (reset L c))) + vec_z (wheelPositions ! i)) \<and>
         quaternion (wheelBodies (reset L c) ! i) = setFromAxisAngle L (Vec3 0 0 1) (pi / 2) \<and>
         quaternion (wheelBodies (reset L c) ! i) = quaternion (fst (createWheelBody L pos pw)) \<and>
         velocity (wheelBodies (reset L c) ! i) = Vec3 0 0 0 \<and>
         angularVelocity (wheelBodies (reset L c) ! i) = Vec3 0 0 0"
  using assms
  by (simp add: chassisBody_reset wheelBodies_reset quaternion_createWheelBody)

theorem reset_wheels_witness:
  "position (chassisBody (reset cannon
      (demoCar\<lparr>wheelBodies :=
         map (\<lambda>w. w\<lparr>position := Vec3 9 9 9, velocity := Vec3 1 2 3\<rparr>) (wheelBodies demoCar)\<rparr>)))
     = Vec3 0 6.4 0 \<and>
   position (wheelBodies (reset cannon
      (demoCar\<lparr>wheelBodies :=
         map (\<lambda>w. w\<lparr>position := Vec3 9 9 9, velocity := Vec3 1 2 3\<rparr>) (wheelBodies demoCar)\<rparr>)) ! 0)
     = Vec3 1.35 6.1 (- 0.9) \<and>
   velocity (wheelBodies (reset cannon
      (demoCar\<lparr>wheelBodies :=
         map (\<lambda>w. w\<lparr>position := Vec3 9 9 9, velocity := Vec3 1 2 3\<rparr>) (wheelBodies demoCar)\<rparr>)) ! 0)
     = Vec3 0 0 0"
proof -
  let ?c = "demoCar\<lparr>wheelBodies :=
         map (\<lambda>w. w\<lparr>position := Vec3 9 9 9, velocity := Vec3 1 2 3\<rparr>) (wheelBodies demoCar)\<rparr>"
  have h: "length (wheelBodies ?c) = 4" by simp
  have i: "(0::nat) < 4" by simp
  note T = reset_wheels[OF h i, of cannon]
  have ch: "position (chassisBody (reset cannon ?c)) = Vec3 0 6.4 0"
    using T by (simp add: height_def)
  have "position (wheelBodies (reset cannon ?c) ! 0) =
           Vec3 (vec_x (position (chassisBody (reset cannon ?c))) + vec_x (wheelPositions ! 0))
                (vec_y (position (chassisBody (reset cannon ?c))) + vec_y (wheelPositions ! 0))
                (vec_z (position (chassisBody (reset cannon ?c))) + vec_z (wheelPositions ! 0))"
    using T by blast
  then have w: "position (wheelBodies (reset cannon ?c) ! 0) = Vec3 1.35 6.1 (- 0.9)"
    unfolding ch
    by (simp add: wheelPositions_def length_car_def height_def width_def wheelRadius_def)
  have "velocity (wheelBodies (reset cannon ?c) ! 0) = Vec3 0 0 0" using T by blast
  with ch w show ?thesis by blast
qed

text \<open>
  C6. After \<open>reset()\<close> in any state of a car with its eight bumper particles, particle \<open>i\<close>
  is at \<open>x = chassis x + length / 2 + 0.1\<close>, \<open>y = chassis y - height / 3\<close>,
  \<open>z = chassis z - 0.9 * width / 2 + (0.9 * width / 7) * i\<close>, which is the chassis position
  plus the rest offset \<open>frontBumperPositions[i]\<close> the particle was created with, and its
  linear and angular velocity are zero.
\<close>

theorem reset_bumper:
  assumes "length (bodies (frontBumper c)) = 8" and "i < 8"
  shows "position (bodies (frontBumper (reset L c)) ! i) =
           Vec3 (vec_x (position (chassisBody (reset L c))) + length_car / 2 + 0.1)
                (vec_y (position (chassisBody (reset L c))) - height / 3)
                (vec_z (position (chassisBody (reset L c))) - (0.9 * width) / 2
                   + ((0.9 * width) / 7) * real i) \<and>
         position (bodies (frontBumper (reset L c)) ! i) =
           Vec3 (vec_x (position (chassisBody (reset L c))) + vec_x (frontBumperPositions ! i))
                (vec_y (position (chassisBody (reset L c))) + vec_y (frontBumperPositions ! i))
                (vec_z (position (chassisBody (reset L c))) + vec_z (frontBumperPositions ! i)) \<and>
         velocity (bodies (frontBumper (reset L c)) ! i) = Vec3 0 0 0 \<and>
         angularVelocity (bodies (frontBumper (reset L c)) ! i) = Vec3 0 0 0 \<and>
         position (bodies (frontBumper (fst (Car_new L pw p))) ! i) =
           Vec3 (vec_x (position (chassisBody (fst (Car_new L pw p)))) + vec_x (frontBumperPositions ! i))
                (vec_y (position (chassisBody (fst (Car_new L pw p)))) + vec_y (frontBumperPositions ! i))
                (vec_z (position (chassisBody (fst (Car_new L pw p)))) + vec_z (frontBumperPositions ! i))"
proof -
  have len: "length frontBumperPositions = 8" by (simp add: frontBumperPositions_def)
  show ?thesis using assms
    by (simp add: bodies_reset chassisBody_reset frontBumperPositions_nth bodies_Car_new
          position_chassis_Car_new len)
qed

theorem reset_bumper_witness:
  "position (bodies (frontBumper (reset cannon
      (demoCar\<lparr>frontBumper := (frontBumper demoCar)\<lparr>bodies :=
         map (\<lambda>b. b\<lparr>position := Vec3 7 7 7, velocity := Vec3 (- 3) 0 0\<rparr>)
             (bodies (frontBumper demoCar))\<rparr>\<rparr>))) ! 7)
     = Vec3 2.35 (89 / 15) 0.81 \<and>
   velocity (bodies (frontBumper (reset cannon
      (demoCar\<lparr>frontBumper := (frontBumper demoCar)\<lparr>bodies :=
         map (\<lambda>b. b\<lparr>position := Vec3 7 7 7, velocity := Vec3 (- 3) 0 0\<rparr>)
             (bodies (frontBumper demoCar))\<rparr>\<rparr>))) ! 7)
     = Vec3 0 0 0"
proof -
  let ?c = "demoCar\<lparr>frontBumper := (frontBumper demoCar)\<lparr>bodies :=
         map (\<lambda>b. b\<lparr>position := Vec3 7 7 7, velocity := Vec3 (- 3) 0 0\<rparr>)
             (bodies (frontBumper demoCar))\<rparr>\<rparr>"
  have h: "length (bodies (frontBumper ?c)) = 8" by simp
  have i: "(7::nat) < 8" by simp
  note T = reset_bumper[OF h i, of cannon]
  have ch: "position (chassisBody (reset cannon ?c)) = Vec3 0 6.4 0"
    by (simp add: chassisBody_reset height_def)
  have "position (bodies (frontBumper (reset cannon ?c)) ! 7) =
           Vec3 (vec_x (position (chassisBody (reset cannon ?c))) + length_car / 2 + 0.1)
                (vec_y (position (chassisBody (reset cannon ?c))) - height / 3)
                (vec_z (position (chassisBody (reset cannon ?c))) - (0.9 * width) / 2
                   + ((0.9 * width) / 7) * real (7::nat))"
    using T by blast
  then have p: "position (bodies (frontBumper (reset cannon ?c)) ! 7) = Vec3 2.35 (89 / 15) 0.81"
    unfolding ch by (simp add: length_car_def height_def width_def)
  have "velocity (bodies (frontBumper (reset cannon ?c)) ! 7) = Vec3 0 0 0" using T by blast
  with p show ?thesis by blast
qed

text \<open>
  C7. When \<open>Car.update\<close> runs with a valid time step (a number greater than 0) and the
  chassis is below \<open>y = -10\<close>, the update ends with \<open>reset()\<close>: the result is the reset of
  the car after its steering and driving update, with the chassis at the rest pose, its
  velocities zero, and the controls, steering and speed cleared. Above the floor no reset
  happens. With a time step that is \<open>NaN\<close> or not positive the update returns at once and
  changes nothing. The update always returns a car, never an error.
\<close>

theorem fall_triggers_reset:
  "(0 < dt \<and> vec_y (position (chassisBody c)) < - 10 \<longrightarrow>
      Car_update L (Num dt) c = reset L (updateDriving L dt (updateSteering L dt c)) \<and>
      position (chassisBody (Car_update L (Num dt) c)) =
        Vec3 (vec_x (carPosition c)) (vec_y (carPosition c) + height) (vec_z (carPosition c)) \<and>
      quaternion (chassisBody (Car_update L (Num dt) c)) = Quaternion 0 0 0 1 \<and>
      velocity (chassisBody (Car_update L (Num dt) c)) = Vec3 0 0 0 \<and>
      angularVelocity (chassisBody (Car_update L (Num dt) c)) = Vec3 0 0 0 \<and>
      controls (Car_update L (Num dt) c) = noControls \<and>
      steering (Car_update L (Num dt) c) = 0 \<and>
      speed (Car_update L (Num dt) c) = 0) \<and>
   (0 < dt \<and> \<not> vec_y (position (chassisBody c)) < - 10 \<longrightarrow>
      Car_update L (Num dt) c = updateDriving L dt (updateSteering L dt c)) \<and>
   (dt \<le> 0 \<longrightarrow> Car_update L (Num dt) c = c) \<and>
   Car_update L NaN c = c"
  by (simp add: Car_update_def Let_def chassisBody_reset)

theorem fall_triggers_reset_witness:
  "position (chassisBody (Car_update cannon (Num (1 / 60))
      (demoCar\<lparr>chassisBody := (chassisBody demoCar)\<lparr>position := Vec3 0 (- 20) 0\<rparr>\<rparr>))) =
      Vec3 0 6.4 0 \<and>
   velocity (chassisBody (Car_update cannon (Num (1 / 60))
      (demoCar\<lparr>chassisBody := (chassisBody demoCar)\<lparr>position := Vec3 0 (- 20) 0\<rparr>\<rparr>))) =
      Vec3 0 0 0 \<and>
   Car_update cannon (Num (- 1)) demoCar = demoCar"
proof -
  let ?c = "demoCar\<lparr>chassisBody := (chassisBody demoCar)\<lparr>position := Vec3 0 (- 20) 0\<rparr>\<rparr>"
  have h: "(0::real) < 1 / 60 \<and> vec_y (position (chassisBody ?c)) < - 10" by simp
  note T = fall_triggers_reset[of "1 / 60" ?c cannon]
  from T h have "position (chassisBody (Car_update cannon (Num (1 / 60)) ?c)) =
        Vec3 (vec_x (carPosition ?c)) (vec_y (carPosition ?c) + height) (vec_z (carPosition ?c))"
    and v: "velocity (chassisBody (Car_update cannon (Num (1 / 60)) ?c)) = Vec3 0 0 0"
    by blast+
  then have p: "position (chassisBody (Car_update cannon (Num (1 / 60)) ?c)) = Vec3 0 6.4 0"
    by (simp add: height_def)
  have "(- 1::real) \<le> 0" by simp
  with fall_triggers_reset[of "- 1" demoCar cannon]
  have "Car_update cannon (Num (- 1)) demoCar = demoCar" by blast
  with p v show ?thesis by blast
qed

text \<open>
  A car below the floor is not reset by an update whose time step is 0, as that of the first
  frame is: it stays at \<open>y = -20\<close>, where \<open>reset\<close> would have put it at \<open>y = 6.4\<close>.
\<close>

theorem fall_without_reset_counterexample:
  "vec_y (position (chassisBody
      (demoCar\<lparr>chassisBody := (chassisBody demoCar)\<lparr>position := Vec3 0 (- 20) 0\<rparr>\<rparr>))) < - 10 \<and>
   Car_update cannon (Num 0)
      (demoCar\<lparr>chassisBody := (chassisBody demoCar)\<lparr>position := Vec3 0 (- 20) 0\<rparr>\<rparr>) =
      demoCar\<lparr>chassisBody := (chassisBody demoCar)\<lparr>position := Vec3 0 (- 20) 0\<rparr>\<rparr> \<and>
   position (chassisBody (Car_update cannon (Num 0)
      (demoCar\<lparr>chassisBody := (chassisBody demoCar)\<lparr>position := Vec3 0 (- 20) 0\<rparr>\<rparr>))) =
      Vec3 0 (- 20) 0 \<and>
   position (chassisBody (reset cannon
      (demoCar\<lparr>chassisBody := (chassisBody demoCar)\<lparr>position := Vec3 0 (- 20) 0\<rparr>\<rparr>))) =
      Vec3 0 6.4 0"
  by (simp add: Car_update_def chassisBody_reset height_def)

text \<open>
  C8. \<open>PhysicsWorld.update\<close> called with \<open>NaN\<close> or with a time step that is not positive
  steps the engine once, with \<open>1 / 60\<close>; called with a positive time step it steps the engine
  once with that time step.
\<close>

theorem physics_update_timestep:
  "steps (PhysicsWorld_update step NaN pw) = steps pw @ [1 / 60] \<and>
   worldBodies (PhysicsWorld_update step NaN pw) = step (1 / 60) (worldBodies pw) \<and>
   (d \<le> 0 \<longrightarrow>
      steps (PhysicsWorld_update step (Num d) pw) = steps pw @ [1 / 60] \<and>
      worldBodies (PhysicsWorld_update step (Num d) pw) = step (1 / 60) (worldBodies pw)) \<and>
   (0 < d \<longrightarrow>
      steps (PhysicsWorld_update step (Num d) pw) = steps pw @ [d] \<and>
      worldBodies (PhysicsWorld_update step (Num d) pw) = step d (worldBodies pw))"
  by (simp add: PhysicsWorld_update_def Let_def)

theorem physics_update_timestep_witness:
  "steps (PhysicsWorld_update (\<lambda>dt bs. bs) (Num (- 1)) emptyWorld) = [1 / 60] \<and>
   steps (PhysicsWorld_update (\<lambda>dt bs. bs) (Num 0.1) emptyWorld) = [0.1] \<and>
   steps (PhysicsWorld_update (\<lambda>dt bs. bs) NaN emptyWorld) = [1 / 60]"
proof -
  have a: "(- 1::real) \<le> 0" and b: "(0::real) < 0.1" by simp_all
  from a physics_update_timestep[of "\<lambda>dt bs. bs" emptyWorld "- 1"]
  have 1: "steps (PhysicsWorld_update (\<lambda>dt bs. bs) (Num (- 1)) emptyWorld) = steps emptyWorld @ [1 / 60]"
    by blast
  from b physics_update_timestep[of "\<lambda>dt bs. bs" emptyWorld "0.1"]
  have 2: "steps (PhysicsWorld_update (\<lambda>dt bs. bs) (Num 0.1) emptyWorld) = steps emptyWorld @ [0.1]"
    and 3: "steps (PhysicsWorld_update (\<lambda>dt bs. bs) NaN emptyWorld) = steps emptyWorld @ [1 / 60]"
    by blast+
  from 1 2 3 show ?thesis by (simp add: emptyWorld_def)
qed

text \<open>
  C9. \<open>reset()\<close> sets all five control flags to false and the steering angle and the speed
  to 0, whatever they were. After it, as long as no key-down event of a control key arrives,
  the flags stay false and the steering stays 0 through any key-up events, frame updates and
  resets, and no force is applied to any wheel.
\<close>

theorem reset_clears_controls:
  "controls (reset L c) =
     \<lparr> forward = False, backward = False, left = False, right = False, brake = False \<rparr> \<and>
   steering (reset L c) = 0 \<and>
   speed (reset L c) = 0 \<and>
   (\<forall>es. (\<forall>e \<in> set es. \<not> pressesControl e) \<longrightarrow>
      controls (run L es (reset L c)) =
        \<lparr> forward = False, backward = False, left = False, right = False, brake = False \<rparr> \<and>
      steering (run L es (reset L c)) = 0 \<and>
      map forces (wheelBodies (run L es (reset L c))) = map forces (wheelBodies (reset L c)))"
proof -
  have "idle (run L es (reset L c)) \<and>
        map forces (wheelBodies (run L es (reset L c))) = map forces (wheelBodies (reset L c))"
    if "\<forall>e \<in> set es. \<not> pressesControl e" for es
    using idle_run[OF idle_reset that] .
  then show ?thesis by (simp add: idle_def noControls_def)
qed

theorem reset_clears_controls_witness:
  "controls (run cannon [KeyUp ''w'', Update (Num (1 / 60)), KeyDown ''r'', KeyDown ''x'',
                         UpdateDriving 0.1]
      (reset cannon (demoCar\<lparr>controls := noControls\<lparr>forward := True, left := True\<rparr>,
                             steering := 0.3\<rparr>))) =
     \<lparr> forward = False, backward = False, left = False, right = False, brake = False \<rparr> \<and>
   steering (run cannon [KeyUp ''w'', Update (Num (1 / 60)), KeyDown ''r'', KeyDown ''x'',
                         UpdateDriving 0.1]
      (reset cannon (demoCar\<lparr>controls := noControls\<lparr>forward := True, left := True\<rparr>,
                             steering := 0.3\<rparr>))) = 0"
proof -
  let ?es = "[KeyUp ''w'', Update (Num (1 / 60)), KeyDown ''r'', KeyDown ''x'', UpdateDriving 0.1]"
  let ?c = "demoCar\<lparr>controls := noControls\<lparr>forward := True, left := True\<rparr>, steering := 0.3\<rparr>"
  have h: "\<forall>e \<in> set ?es. \<not> pressesControl e"
    by (simp add: pressesControl_def toLowerCase_def)
  from reset_clears_controls[of cannon ?c] h show ?thesis by blast
qed

text \<open>
  C10. In \<open>updateDriving\<close>, with \<open>forward\<close> and \<open>brake\<close> both held each rear wheel still
  receives the full \<open>+maxForce\<close> along its forward direction. The brake flag decides the
  rear wheels' angular damping (0.95 held, 0.1 released) and linear damping (0.9 held, 0.05
  released), and nothing else: two cars that differ in the brake flag only are, after
  \<open>updateDriving\<close>, equal up to that flag and those two coefficients.
\<close>

theorem brake_keeps_engine_force:
  assumes "length (wheelBodies c) = 4" and "i = 2 \<or> i = 3"
  shows "(forward (controls c) \<and> brake (controls c) \<longrightarrow>
            forces (wheelBodies (updateDriving L dt c) ! i) =
              forces (wheelBodies c ! i) @
                [(scale (vmult L (quaternion (wheelBodies c ! i)) (Vec3 1 0 0)) maxForce,
                  position (wheelBodies c ! i))]) \<and>
         angularDamping (wheelBodies (updateDriving L dt c) ! i) =
           (if brake (controls c) then 0.95 else 0.1) \<and>
         linearDamping (wheelBodies (updateDriving L dt c) ! i) =
           (if brake (controls c) then 0.9 else 0.05) \<and>
         dampingErased (updateDriving L dt (c\<lparr>controls := (controls c)\<lparr>brake := b\<rparr>\<rparr>)) =
           dampingErased (updateDriving L dt c)"
  using assms
  by (simp add: rear_updateDriving forces_driveWheel damping_driveWheel maxForce_def
        dampingErased_updateDriving)

theorem brake_keeps_engine_force_witness:
  "forces (wheelBodies (updateDriving cannon (1 / 60)
             (demoCar\<lparr>controls := noControls\<lparr>forward := True, brake := True\<rparr>\<rparr>)) ! 2) =
     [(Vec3 0 500 0, Vec3 (- 1.35) 4.7 (- 0.9))] \<and>
   angularDamping (wheelBodies (updateDriving cannon (1 / 60)
             (demoCar\<lparr>controls := noControls\<lparr>forward := True, brake := True\<rparr>\<rparr>)) ! 2) = 0.95 \<and>
   linearDamping (wheelBodies (updateDriving cannon (1 / 60)
             (demoCar\<lparr>controls := noControls\<lparr>forward := True, brake := True\<rparr>\<rparr>)) ! 2) = 0.9"
proof -
  let ?c = "demoCar\<lparr>controls := noControls\<lparr>forward := True, brake := True\<rparr>\<rparr>"
  have h: "length (wheelBodies ?c) = 4" by simp
  have i: "(2::nat) = 2 \<or> (2::nat) = 3" by simp
  note T = brake_keeps_engine_force[OF h i, of cannon "1 / 60"]
  have fb: "forward (controls ?c) \<and> brake (controls ?c)" by simp
  from T fb have "forces (wheelBodies (updateDriving cannon (1 / 60) ?c) ! 2) =
              forces (wheelBodies ?c ! 2) @
                [(scale (vmult cannon (quaternion (wheelBodies ?c ! 2)) (Vec3 1 0 0)) maxForce,
                  position (wheelBodies ?c ! 2))]"
    by blast
  then have 1: "forces (wheelBodies (updateDriving cannon (1 / 60) ?c) ! 2) =
     [(Vec3 0 500 0, Vec3 (- 1.35) 4.7 (- 0.9))]"
    by (simp add: wheel2_demoCar scale_def cannon_def Let_def maxForce_def)
  from T have "angularDamping (wheelBodies (updateDriving cannon (1 / 60) ?c) ! 2) =
           (if brake (controls ?c) then 0.95 else 0.1)"
     and "linearDamping (wheelBodies (updateDriving cannon (1 / 60) ?c) ! 2) =
           (if brake (controls ?c) then 0.9 else 0.05)"
    by blast+
  with 1 show ?thesis by simp
qed

end
